theory Spec2Isabelle
  imports Main "HOL-Library.Option_ord" "HOL-Library.Multiset"
begin

section \<open>Subscription bot: record store, approval handler and expiry sweeper\<close>

text \<open>
  A shallow embedding of \<^verbatim>\<open>db.py\<close>, \<^verbatim>\<open>admin_handlers.py\<close>, \<^verbatim>\<open>scheduler.py\<close> and the
  receipt handler of \<^verbatim>\<open>user_handlers.py\<close>. The SQLite table, the Telegram transport and
  the sleeps are an explicit world that every operation takes and returns. One handler
  runs from start to end on that world: task cancellation and interleaving with other
  handlers are outside the model. A callback query is taken to carry its message, and a
  user's chat to be the user's id, as in a private chat with the bot.
\<close>

subsection \<open>Dates\<close>

text \<open>
  A \<^verbatim>\<open>datetime.date\<close> is its proleptic Gregorian ordinal: \<^verbatim>\<open>date.min\<close> is 1 and
  \<^verbatim>\<open>date.max\<close> (9999-12-31) is 3652059. \<^verbatim>\<open>timedelta(days=n)\<close> raises OverflowError when
  the magnitude of \<open>n\<close> exceeds 999999999, and \<^verbatim>\<open>date + timedelta\<close> raises it when the sum
  leaves the range of dates. The ISO text stored in the table orders as the ordinals do.
\<close>

type_synonym pydate = int

datatype exn = OverflowError | AttributeError | TelegramError

definition timedelta :: "int \<Rightarrow> exn + int" where
  "timedelta days =
     (if - 999999999 \<le> days \<and> days \<le> 999999999 then Inr days else Inl OverflowError)"

definition date_plus :: "pydate \<Rightarrow> int \<Rightarrow> exn + pydate" where
  "date_plus d days =
     (case timedelta days of
        Inl e \<Rightarrow> Inl e
      | Inr td \<Rightarrow> (if 1 \<le> d + td \<and> d + td \<le> 3652059 then Inr (d + td) else Inl OverflowError))"

subsection \<open>Configuration (config.py)\<close>

record config =
  ADMIN_ID :: int
  MONTHLY_DAYS :: int

subsection \<open>The subscribers table (db.py)\<close>

text \<open>
  One row of \<^verbatim>\<open>subscribers\<close>. Nullable columns are options; \<open>status\<close> is the stored text.
\<close>

record subscriber =
  user_id :: int
  username :: "string option"
  start_date :: "pydate option"
  end_date :: "pydate option"
  status :: string
  subscription_type :: "string option"

definition ALLOWED_STATUSES :: "string set" where
  "ALLOWED_STATUSES = {''active'', ''pending'', ''expired''}"

definition ALLOWED_SUBSCRIPTION_TYPES :: "string set" where
  "ALLOWED_SUBSCRIPTION_TYPES = {''monthly'', ''lifetime''}"

subsection \<open>The world: table, transport and trace\<close>

text \<open>
  Message bodies are abstracted to a tag naming the text the source sends.
\<close>

datatype action = Approve | Decline

datatype body =
    SubscriptionConfirmation
  | PaymentDeclined
  | AdminConfirmation action
  | SubscriptionExpired
  | ReceiptReceived
  | ErrorProcessingReceipt
  | NewPaymentRequest

datatype notice =
    UserNotFound
  | FailedToUpdateStatus
  | ApprovedAndNotified
  | DeclinedAndNotified
  | ErrorProcessing action
  | AccessDenied

datatype api_call =
    SendMessage int body
  | SendPhoto int body
  | EditText action
  | AnswerCallback notice bool

text \<open>
  What the Bot API does with one call: it goes through, or raises TelegramRetryAfter with
  the delay, or another TelegramAPIError with its message, or any other exception.
\<close>

datatype api_result = Delivered | RetryAfter int | ApiError string | OtherError

datatype event = Call api_call api_result | Slept int | StateCleared int

text \<open>
  \<open>db_faults\<close> and \<open>transport\<close> script the environment: the head of \<open>db_faults\<close> says
  whether the next connection to SQLite raises \<^verbatim>\<open>sqlite3.Error\<close>, the head of
  \<open>transport\<close> is the outcome of the next Bot API call; past the end of a script nothing
  fails. \<open>trace\<close> logs every API call attempted, every sleep and every FSM reset, oldest
  first.
\<close>

record world =
  subscribers :: "subscriber list"
  db_faults :: "bool list"
  transport :: "api_result list"
  trace :: "event list"

definition get_connection :: "world \<Rightarrow> bool \<times> world" where
  "get_connection w =
     (case db_faults w of
        [] \<Rightarrow> (False, w)
      | f # fs \<Rightarrow> (f, w\<lparr>db_faults := fs\<rparr>))"

definition bot_call :: "api_call \<Rightarrow> world \<Rightarrow> api_result \<times> world" where
  "bot_call c w =
     (case transport w of
        [] \<Rightarrow> (Delivered, w\<lparr>trace := trace w @ [Call c Delivered]\<rparr>)
      | r # rs \<Rightarrow> (r, w\<lparr>transport := rs, trace := trace w @ [Call c r]\<rparr>))"

definition asyncio_sleep :: "int \<Rightarrow> world \<Rightarrow> world" where
  "asyncio_sleep secs w = w\<lparr>trace := trace w @ [Slept secs]\<rparr>"

text \<open>An awaited API call outside any handler of its own: every failure is an exception.\<close>

definition bot_await :: "api_call \<Rightarrow> world \<Rightarrow> (exn + unit) \<times> world" where
  "bot_await c w =
     (case bot_call c w of
        (Delivered, w') \<Rightarrow> (Inr (), w')
      | (_, w') \<Rightarrow> (Inl TelegramError, w'))"

subsection \<open>Record store operations (db.py)\<close>

definition get_subscriber :: "int \<Rightarrow> world \<Rightarrow> subscriber option \<times> world" where
  "get_subscriber uid w =
     (let (fault, w1) = get_connection w in
      if fault then (None, w1)
      else (find (\<lambda>r. user_id r = uid) (subscribers w1), w1))"

definition update_subscriber_status :: "int \<Rightarrow> string \<Rightarrow> world \<Rightarrow> bool \<times> world" where
  "update_subscriber_status uid st w =
     (if st \<notin> ALLOWED_STATUSES then (False, w)
      else
        let (fault, w1) = get_connection w in
        if fault then (False, w1)
        else
          (0 < length (filter (\<lambda>r. user_id r = uid) (subscribers w1)),
           w1\<lparr>subscribers :=
                 map (\<lambda>r. if user_id r = uid then r\<lparr>status := st\<rparr> else r) (subscribers w1)\<rparr>))"

definition update_subscription_dates ::
  "int \<Rightarrow> pydate option \<Rightarrow> pydate option \<Rightarrow> string option \<Rightarrow> world \<Rightarrow> bool \<times> world" where
  "update_subscription_dates uid sd ed stype w =
     (case stype of
        None \<Rightarrow> (False, w)
      | Some ty \<Rightarrow>
          if ty \<notin> ALLOWED_SUBSCRIPTION_TYPES then (False, w)
          else
            let (fault, w1) = get_connection w in
            if fault then (False, w1)
            else
              (0 < length (filter (\<lambda>r. user_id r = uid) (subscribers w1)),
               w1\<lparr>subscribers :=
                     map (\<lambda>r. if user_id r = uid
                               then r\<lparr>start_date := sd, end_date := ed, subscription_type := Some ty\<rparr>
                               else r) (subscribers w1)\<rparr>))"

text \<open>
  The WHERE clause of the sweeper's query; \<open>today\<close> is SQLite's \<^verbatim>\<open>date('now')\<close>.
\<close>

definition is_expired :: "pydate \<Rightarrow> subscriber \<Rightarrow> bool" where
  "is_expired today r =
     (status r = ''active'' \<and> (case end_date r of None \<Rightarrow> False | Some e \<Rightarrow> e < today))"

text \<open>
  ORDER BY end_date ASC: NULL sorts first, as \<open>None\<close> does in the order on options; rows
  with the same end date keep the table's order.
\<close>

definition list_expired_subscriptions :: "pydate \<Rightarrow> world \<Rightarrow> subscriber list \<times> world" where
  "list_expired_subscriptions today w =
     (let (fault, w1) = get_connection w in
      if fault then ([], w1)
      else (sort_key end_date (filter (is_expired today) (subscribers w1)), w1))"

subsection \<open>Approval handlers (admin_handlers.py)\<close>

text \<open>
  \<^verbatim>\<open>AdminFilter.__call__\<close>: the only place that compares a caller with \<^verbatim>\<open>config.ADMIN_ID\<close>.
  No handler of the module is registered with it.
\<close>

definition AdminFilter :: "config \<Rightarrow> int \<Rightarrow> bool \<times> int" where
  "AdminFilter cfg caller = (caller = ADMIN_ID cfg, caller)"

text \<open>The three senders catch every exception and return whether the message went out.\<close>

definition send_user_subscription_confirmation :: "int \<Rightarrow> world \<Rightarrow> bool \<times> world" where
  "send_user_subscription_confirmation uid w =
     (case bot_call (SendMessage uid SubscriptionConfirmation) w of
        (Delivered, w') \<Rightarrow> (True, w')
      | (_, w') \<Rightarrow> (False, w'))"

definition send_user_payment_declined :: "int \<Rightarrow> world \<Rightarrow> bool \<times> world" where
  "send_user_payment_declined uid w =
     (case bot_call (SendMessage uid PaymentDeclined) w of
        (Delivered, w') \<Rightarrow> (True, w')
      | (_, w') \<Rightarrow> (False, w'))"

text \<open>
  The admin's text calls \<^verbatim>\<open>subscription_type.title()\<close>: on a NULL plan that raises
  AttributeError inside the sender's own try block, before anything is sent.
\<close>

definition send_admin_confirmation ::
  "config \<Rightarrow> action \<Rightarrow> subscriber \<Rightarrow> world \<Rightarrow> bool \<times> world" where
  "send_admin_confirmation cfg act user_data w =
     (case subscription_type user_data of
        None \<Rightarrow> (False, w)
      | Some _ \<Rightarrow>
          (case bot_call (SendMessage (ADMIN_ID cfg) (AdminConfirmation act)) w of
             (Delivered, w') \<Rightarrow> (True, w')
           | (_, w') \<Rightarrow> (False, w')))"

text \<open>
  The \<^verbatim>\<open>approve\<close> branch of the try block of \<^verbatim>\<open>handle_admin_action\<close>. The row read
  before always has the key \<^verbatim>\<open>subscription_type\<close>, so the default of \<^verbatim>\<open>.get\<close> is never
  taken and a NULL plan stays \<open>None\<close>. \<open>today\<close> is \<^verbatim>\<open>date.today()\<close>.
\<close>

definition approve_branch ::
  "config \<Rightarrow> pydate \<Rightarrow> int \<Rightarrow> subscriber \<Rightarrow> world \<Rightarrow> (exn + unit) \<times> world" where
  "approve_branch cfg today target user_data w =
     (let (success, w1) = update_subscriber_status target ''active'' w in
      if \<not> success then bot_await (AnswerCallback FailedToUpdateStatus True) w1
      else
        let stype = subscription_type user_data;
            start = today
        in case (if stype = Some ''lifetime'' then date_plus start (365 * 10)
                 else date_plus start (MONTHLY_DAYS cfg)) of
             Inl e \<Rightarrow> (Inl e, w1)
           | Inr finish \<Rightarrow>
               (let w2 = snd (update_subscription_dates target (Some start) (Some finish) stype w1);
                    w3 = snd (send_user_subscription_confirmation target w2);
                    w4 = snd (send_admin_confirmation cfg Approve user_data w3)
                in (case stype of
                      None \<Rightarrow> (Inl AttributeError, w4)
                    | Some _ \<Rightarrow>
                        (case bot_await (EditText Approve) w4 of
                           (Inl e, w5) \<Rightarrow> (Inl e, w5)
                         | (Inr _, w5) \<Rightarrow>
                             bot_await (AnswerCallback ApprovedAndNotified False) w5))))"

text \<open>The \<^verbatim>\<open>decline\<close> branch of the same try block.\<close>

definition decline_branch ::
  "config \<Rightarrow> int \<Rightarrow> subscriber \<Rightarrow> world \<Rightarrow> (exn + unit) \<times> world" where
  "decline_branch cfg target user_data w =
     (let (success, w1) = update_subscriber_status target ''expired'' w in
      if \<not> success then bot_await (AnswerCallback FailedToUpdateStatus True) w1
      else
        let w2 = snd (send_user_payment_declined target w1);
            w3 = snd (send_admin_confirmation cfg Decline user_data w2)
        in case subscription_type user_data of
             None \<Rightarrow> (Inl AttributeError, w3)
           | Some _ \<Rightarrow>
               (case bot_await (EditText Decline) w3 of
                  (Inl e, w4) \<Rightarrow> (Inl e, w4)
                | (Inr _, w4) \<Rightarrow> bot_await (AnswerCallback DeclinedAndNotified False) w4))"

text \<open>
  \<^verbatim>\<open>handle_admin_action\<close>. \<open>caller\<close> is \<^verbatim>\<open>callback_query.from_user.id\<close>, which the source
  only logs. An exception of the try block is answered with an alert; an exception of that
  answer, or of the not-found answer, leaves the handler.
\<close>

definition handle_admin_action ::
  "config \<Rightarrow> pydate \<Rightarrow> int \<Rightarrow> action \<Rightarrow> int \<Rightarrow> world \<Rightarrow> (exn + unit) \<times> world" where
  "handle_admin_action cfg today caller act target w =
     (let (user_data, w1) = get_subscriber target w in
      case user_data of
        None \<Rightarrow> bot_await (AnswerCallback UserNotFound True) w1
      | Some u \<Rightarrow>
          (case (case act of
                   Approve \<Rightarrow> approve_branch cfg today target u w1
                 | Decline \<Rightarrow> decline_branch cfg target u w1) of
             (Inl e, w2) \<Rightarrow> bot_await (AnswerCallback (ErrorProcessing act) True) w2
           | (Inr done, w2) \<Rightarrow> (Inr done, w2)))"

definition handle_non_admin_callback :: "int \<Rightarrow> world \<Rightarrow> (exn + unit) \<times> world" where
  "handle_non_admin_callback caller w = bot_await (AnswerCallback AccessDenied True) w"

subsection \<open>Receipt submission (user_handlers.py)\<close>

definition send_admin_payment_notification :: "config \<Rightarrow> int \<Rightarrow> world \<Rightarrow> bool \<times> world" where
  "send_admin_payment_notification cfg uid w =
     (case bot_call (SendPhoto (ADMIN_ID cfg) NewPaymentRequest) w of
        (Delivered, w') \<Rightarrow> (True, w')
      | (_, w') \<Rightarrow> (False, w'))"

text \<open>
  The try block of \<^verbatim>\<open>handle_receipt_photo\<close>. \<open>tariff\<close> is \<^verbatim>\<open>payment_data.get("tariff")\<close>,
  \<open>None\<close> when the FSM data holds no tariff. A failed status write is only logged.
\<close>

definition receipt_try ::
  "config \<Rightarrow> pydate \<Rightarrow> int \<Rightarrow> string option \<Rightarrow> world \<Rightarrow> (exn + unit) \<times> world" where
  "receipt_try cfg today uid tariff w =
     (let w1 = snd (update_subscriber_status uid ''pending'' w) in
      case (if tariff = Some ''monthly''
            then (case date_plus today (MONTHLY_DAYS cfg) of
                    Inl e \<Rightarrow> Inl e
                  | Inr d \<Rightarrow> Inr (Some d))
            else Inr None) of
        Inl e \<Rightarrow> (Inl e, w1)
      | Inr finish \<Rightarrow>
          (let w2 = snd (update_subscription_dates uid (Some today) finish
                           (Some (case tariff of None \<Rightarrow> ''monthly'' | Some t \<Rightarrow> t)) w1);
               w3 = w2\<lparr>trace := trace w2 @ [StateCleared uid]\<rparr>
           in (case bot_await (SendMessage uid ReceiptReceived) w3 of
                 (Inl e, w4) \<Rightarrow> (Inl e, w4)
               | (Inr _, w4) \<Rightarrow> (Inr (), snd (send_admin_payment_notification cfg uid w4)))))"

definition handle_receipt_photo ::
  "config \<Rightarrow> pydate \<Rightarrow> int \<Rightarrow> string option \<Rightarrow> world \<Rightarrow> (exn + unit) \<times> world" where
  "handle_receipt_photo cfg today uid tariff w =
     (case receipt_try cfg today uid tariff w of
        (Inl e, w1) \<Rightarrow> bot_await (SendMessage uid ErrorProcessingReceipt) w1
      | (Inr u, w1) \<Rightarrow> (Inr u, w1))"

subsection \<open>Expiry sweeper (scheduler.py)\<close>

text \<open>
  \<^verbatim>\<open>str.lower\<close> on the bytes of an ASCII message, and Python's substring test \<^verbatim>\<open>in\<close>.
\<close>

definition lower_char :: "char \<Rightarrow> char" where
  "lower_char c =
     (case map_of (zip ''ABCDEFGHIJKLMNOPQRSTUVWXYZ'' ''abcdefghijklmnopqrstuvwxyz'') c of
        None \<Rightarrow> c
      | Some l \<Rightarrow> l)"

definition lower :: "string \<Rightarrow> string" where
  "lower s = map lower_char s"

fun contains :: "string \<Rightarrow> string \<Rightarrow> bool" where
  "contains needle [] = (needle = [])"
| "contains needle (c # cs) = (take (length needle) (c # cs) = needle \<or> contains needle cs)"

definition is_permanent :: "string \<Rightarrow> bool" where
  "is_permanent msg =
     (contains ''blocked'' (lower msg) \<or> contains ''user not found'' (lower msg)
      \<or> contains ''chat not found'' (lower msg))"

text \<open>
  The body of \<^verbatim>\<open>for attempt in range(retries)\<close>, over the attempts still to come.
\<close>

fun notify_loop :: "int \<Rightarrow> int \<Rightarrow> int list \<Rightarrow> world \<Rightarrow> bool \<times> world" where
  "notify_loop uid retries [] w = (False, w)"
| "notify_loop uid retries (attempt # rest) w =
     (case bot_call (SendMessage uid SubscriptionExpired) w of
        (Delivered, w1) \<Rightarrow> (True, w1)
      | (RetryAfter wait_time, w1) \<Rightarrow> notify_loop uid retries rest (asyncio_sleep wait_time w1)
      | (ApiError msg, w1) \<Rightarrow>
          if is_permanent msg then (False, w1)
          else notify_loop uid retries rest
                 (if attempt < retries - 1 then asyncio_sleep (2 * (attempt + 1)) w1 else w1)
      | (OtherError, w1) \<Rightarrow> (False, w1))"

definition notify_user :: "int \<Rightarrow> int \<Rightarrow> world \<Rightarrow> bool \<times> world" where
  "notify_user uid retries w = notify_loop uid retries [0..retries - 1] w"

text \<open>The loop of \<^verbatim>\<open>check_expired_subscriptions\<close> over the rows the query returned.\<close>

fun expire_each :: "subscriber list \<Rightarrow> world \<Rightarrow> world" where
  "expire_each [] w = w"
| "expire_each (sub # subs) w =
     (let w1 = snd (notify_user (user_id sub) 3 w);
          w2 = snd (update_subscriber_status (user_id sub) ''expired'' w1)
      in expire_each subs w2)"

definition check_expired_subscriptions :: "pydate \<Rightarrow> world \<Rightarrow> world" where
  "check_expired_subscriptions today w =
     (let (expired_subs, w1) = list_expired_subscriptions today w in expire_each expired_subs w1)"

text \<open>What a sweep over the users \<open>ids\<close> does to one row.\<close>

definition expire_row :: "int set \<Rightarrow> subscriber \<Rightarrow> subscriber" where
  "expire_row ids r = (if user_id r \<in> ids then r\<lparr>status := ''expired''\<rparr> else r)"

subsection \<open>Observations on a trace\<close>

text \<open>The messages and photos a trace tried to send, with their chats, oldest first.\<close>

fun messages_sent :: "event list \<Rightarrow> (int \<times> body) list" where
  "messages_sent [] = []"
| "messages_sent (Call (SendMessage chat b) r # es) = (chat, b) # messages_sent es"
| "messages_sent (Call (SendPhoto chat b) r # es) = (chat, b) # messages_sent es"
| "messages_sent (e # es) = messages_sent es"

text \<open>The number of Bot API calls in a trace.\<close>

fun api_calls :: "event list \<Rightarrow> nat" where
  "api_calls [] = 0"
| "api_calls (Call c r # es) = Suc (api_calls es)"
| "api_calls (e # es) = api_calls es"

subsection \<open>Sample rows and worlds\<close>

text \<open>
  Ordinal 738886 is 2024-01-01. User 42 has submitted a monthly receipt on that day and
  waits for approval; user 7 is active and ran out on 738880; user 8 is active for life.
\<close>

definition row42 :: subscriber where
  "row42 = \<lparr>user_id = 42, username = Some ''alice'', start_date = Some 738886,
            end_date = Some 738916, status = ''pending'', subscription_type = Some ''monthly''\<rparr>"

definition row7 :: subscriber where
  "row7 = \<lparr>user_id = 7, username = Some ''bob'', start_date = Some 738850,
           end_date = Some 738880, status = ''active'', subscription_type = Some ''monthly''\<rparr>"

definition row8 :: subscriber where
  "row8 = \<lparr>user_id = 8, username = None, start_date = Some 738800,
           end_date = None, status = ''active'', subscription_type = Some ''lifetime''\<rparr>"

definition world0 :: world where
  "world0 = \<lparr>subscribers = [row7, row8, row42], db_faults = [], transport = [], trace = []\<rparr>"

definition config0 :: config where
  "config0 = \<lparr>ADMIN_ID = 1, MONTHLY_DAYS = 30\<rparr>"

text \<open>Scenario E: the transport answers the first call with "blocked".\<close>

definition world_blocked :: world where
  "world_blocked = \<lparr>subscribers = [row7, row8], db_faults = [],
      transport = [ApiError ''Forbidden: bot was blocked by the user''], trace = []\<rparr>"

text \<open>The second, respectively third, connection to SQLite raises.\<close>

definition world_status_fault :: world where
  "world_status_fault = world0\<lparr>db_faults := [False, True]\<rparr>"

definition world_dates_fault :: world where
  "world_dates_fault = world0\<lparr>db_faults := [False, False, True]\<rparr>"

text \<open>User 9 has submitted a lifetime receipt and waits for approval.\<close>

definition row9 :: subscriber where
  "row9 = \<lparr>user_id = 9, username = Some ''carol'', start_date = Some 738886,
           end_date = None, status = ''pending'', subscription_type = Some ''lifetime''\<rparr>"

definition world_lifetime :: world where
  "world_lifetime = \<lparr>subscribers = [row9], db_faults = [], transport = [], trace = []\<rparr>"

text \<open>
  Three rate-limit answers in a row, after which the transport would deliver.
\<close>

definition world_flood :: world where
  "world_flood = \<lparr>subscribers = [row7], db_faults = [],
      transport = [RetryAfter 5, RetryAfter 7, RetryAfter 9, Delivered], trace = []\<rparr>"

section \<open>Frame and store lemmas\<close>

lemma get_connection_healthy [simp]: "db_faults w = [] \<Longrightarrow> get_connection w = (False, w)"
  by (simp add: get_connection_def)

lemma bot_call_frame [simp]:
  "subscribers (snd (bot_call c w)) = subscribers w"
  "db_faults (snd (bot_call c w)) = db_faults w"
  by (simp_all add: bot_call_def split: list.splits)

lemma bot_await_frame [simp]:
  "subscribers (snd (bot_await c w)) = subscribers w"
  "db_faults (snd (bot_await c w)) = db_faults w"
  by (simp_all add: bot_await_def bot_call_def split: list.splits prod.splits api_result.splits)

lemma asyncio_sleep_frame [simp]:
  "subscribers (asyncio_sleep n w) = subscribers w"
  "db_faults (asyncio_sleep n w) = db_faults w"
  by (simp_all add: asyncio_sleep_def)

lemma send_user_subscription_confirmation_frame [simp]:
  "subscribers (snd (send_user_subscription_confirmation uid w)) = subscribers w"
  "db_faults (snd (send_user_subscription_confirmation uid w)) = db_faults w"
  by (simp_all add: send_user_subscription_confirmation_def bot_call_def split: list.splits prod.splits api_result.splits)

lemma send_user_payment_declined_frame [simp]:
  "subscribers (snd (send_user_payment_declined uid w)) = subscribers w"
  "db_faults (snd (send_user_payment_declined uid w)) = db_faults w"
  by (simp_all add: send_user_payment_declined_def bot_call_def split: list.splits prod.splits api_result.splits)

lemma send_admin_confirmation_frame [simp]:
  "subscribers (snd (send_admin_confirmation cfg a u w)) = subscribers w"
  "db_faults (snd (send_admin_confirmation cfg a u w)) = db_faults w"
  by (simp_all add: send_admin_confirmation_def bot_call_def split: list.splits prod.splits api_result.splits option.splits)

lemma send_admin_payment_notification_frame [simp]:
  "subscribers (snd (send_admin_payment_notification cfg uid w)) = subscribers w"
  "db_faults (snd (send_admin_payment_notification cfg uid w)) = db_faults w"
  by (simp_all add: send_admin_payment_notification_def bot_call_def split: list.splits prod.splits api_result.splits option.splits)

lemma notify_loop_frame:
  "subscribers (snd (notify_loop uid n as w)) = subscribers w \<and>
   db_faults (snd (notify_loop uid n as w)) = db_faults w"
proof (induction as arbitrary: w)
  case Nil
  then show ?case by simp
next
  case (Cons a as)
  obtain r w1 where b: "bot_call (SendMessage uid SubscriptionExpired) w = (r, w1)"
    by (cases "bot_call (SendMessage uid SubscriptionExpired) w")
  have f: "subscribers w1 = subscribers w" "db_faults w1 = db_faults w"
    using bot_call_frame [of "SendMessage uid SubscriptionExpired" w] by (simp_all add: b)
  show ?case
    by (cases r) (simp_all add: b f Cons.IH)
qed

lemma notify_user_frame [simp]:
  "subscribers (snd (notify_user uid n w)) = subscribers w"
  "db_faults (snd (notify_user uid n w)) = db_faults w"
  by (simp_all add: notify_user_def notify_loop_frame)

lemma update_status_healthy:
  "db_faults w = [] \<Longrightarrow> st \<in> ALLOWED_STATUSES \<Longrightarrow>
   update_subscriber_status uid st w =
     (0 < length (filter (\<lambda>r. user_id r = uid) (subscribers w)),
      w\<lparr>subscribers := map (\<lambda>r. if user_id r = uid then r\<lparr>status := st\<rparr> else r) (subscribers w)\<rparr>)"
  by (simp add: update_subscriber_status_def)

lemma expire_each_healthy:
  "db_faults w = [] \<Longrightarrow>
   subscribers (expire_each subs w) = map (expire_row (user_id ` set subs)) (subscribers w) \<and>
   db_faults (expire_each subs w) = []"
proof (induction subs arbitrary: w)
  case Nil
  then show ?case by (simp add: expire_row_def)
next
  case (Cons s subs)
  let ?w1 = "snd (notify_user (user_id s) 3 w)"
  let ?w2 = "snd (update_subscriber_status (user_id s) ''expired'' ?w1)"
  have h1: "db_faults ?w1 = []" using Cons.prems by simp
  have w2: "?w2 = ?w1\<lparr>subscribers := map (\<lambda>r. if user_id r = user_id s then r\<lparr>status := ''expired''\<rparr> else r) (subscribers w)\<rparr>"
    using update_status_healthy [OF h1, of "''expired''" "user_id s"] by (simp add: ALLOWED_STATUSES_def)
  have h2: "db_faults ?w2 = []" using h1 by (simp add: w2)
  have "subscribers (expire_each (s # subs) w) = map (expire_row (user_id ` set subs)) (subscribers ?w2)"
    using Cons.IH [OF h2] by (simp add: Let_def)
  also have "\<dots> = map (expire_row (user_id ` set (s # subs))) (subscribers w)"
    by (simp add: w2 expire_row_def)
  finally show ?case using Cons.IH [OF h2] by (simp add: Let_def)
qed

lemma list_expired_healthy:
  "db_faults w = [] \<Longrightarrow>
   list_expired_subscriptions today w = (sort_key end_date (filter (is_expired today) (subscribers w)), w)"
  by (simp add: list_expired_subscriptions_def)

lemma check_expired_healthy:
  assumes "db_faults w = []"
  shows "subscribers (check_expired_subscriptions today w) =
           map (expire_row (user_id ` {r \<in> set (subscribers w). is_expired today r})) (subscribers w)"
    and "db_faults (check_expired_subscriptions today w) = []"
  using expire_each_healthy [OF assms, of "sort_key end_date (filter (is_expired today) (subscribers w))"]
  by (simp_all add: check_expired_subscriptions_def list_expired_healthy [OF assms])

lemma no_expired_after:
  "filter (is_expired today) (map (expire_row (user_id ` {r \<in> set rows. is_expired today r})) rows) = []"
  by (auto simp: filter_empty_conv expire_row_def is_expired_def split: if_splits)

lemma check_expired_nothing:
  "db_faults v = [] \<Longrightarrow> filter (is_expired today) (subscribers v) = [] \<Longrightarrow>
   check_expired_subscriptions today v = v"
  by (simp add: check_expired_subscriptions_def list_expired_healthy)

lemma notify_blocked:
  assumes "transport w = ApiError msg # rest" "is_permanent msg" "0 < retries"
  shows "notify_user uid retries w =
          (False, w\<lparr>transport := rest, trace := trace w @ [Call (SendMessage uid SubscriptionExpired) (ApiError msg)]\<rparr>)"
proof -
  have "[0..retries - 1] = 0 # [1..retries - 1]" using assms(3) by (simp add: upto_rec1)
  then show ?thesis using assms(1,2) by (simp add: notify_user_def bot_call_def)
qed

lemma is_expired_iff:
  "is_expired today r \<longleftrightarrow>
     status r = ''active'' \<and> (\<exists>e. end_date r = Some e \<and> e < today)"
  by (auto simp: is_expired_def split: option.splits)

section \<open>The record store\<close>

text \<open>
  C10. For every user identifier and every string outside active, pending and expired,
  \<^verbatim>\<open>update_subscriber_status\<close> returns False and leaves the world, hence every record,
  as it was: the check comes before any connection is opened.
\<close>

theorem update_status_rejects_unknown_status:
  "st \<notin> {''active'', ''pending'', ''expired''} \<Longrightarrow>
   update_subscriber_status uid st w = (False, w)"
  by (simp add: update_subscriber_status_def ALLOWED_STATUSES_def)

theorem update_status_rejects_unknown_status_witness:
  "''cancelled'' \<notin> {''active'', ''pending'', ''expired''} \<and>
   update_subscriber_status 42 ''cancelled'' world0 = (False, world0)"
  using update_status_rejects_unknown_status [of "''cancelled''" 42 world0] by simp

text \<open>
  C9. When the query does not raise, \<^verbatim>\<open>list_expired_subscriptions\<close> returns exactly the
  rows of the table (each as often as it occurs there) whose status is active and whose
  end date is set and strictly before today, in ascending order of end date.
\<close>

theorem list_expired_exact_and_sorted:
  assumes "\<not> fst (get_connection w)"
  shows "mset (fst (list_expired_subscriptions today w)) =
           {#r \<in># mset (subscribers w).
              status r = ''active'' \<and> (\<exists>e. end_date r = Some e \<and> e < today)#}
         \<and> sorted (map end_date (fst (list_expired_subscriptions today w)))"
proof -
  obtain w1 where g: "get_connection w = (False, w1)"
    using assms by (cases "get_connection w") auto
  then have s: "subscribers w1 = subscribers w"
    by (auto simp: get_connection_def split: list.splits)
  have "fst (list_expired_subscriptions today w) =
          sort_key end_date (filter (is_expired today) (subscribers w))"
    by (simp add: list_expired_subscriptions_def g s)
  then show ?thesis by (simp add: is_expired_iff)
qed

theorem list_expired_exact_and_sorted_witness:
  "\<not> fst (get_connection world0) \<and>
   fst (list_expired_subscriptions 738886 world0) = [row7] \<and>
   mset [row7] =
     {#r \<in># mset (subscribers world0).
        status r = ''active'' \<and> (\<exists>e. end_date r = Some e \<and> e < 738886)#} \<and>
   sorted (map end_date [row7])"
proof -
  have h: "\<not> fst (get_connection world0)"
    by (simp add: world0_def get_connection_def)
  have e: "fst (list_expired_subscriptions 738886 world0) = [row7]"
    by (simp add: list_expired_subscriptions_def get_connection_def world0_def is_expired_def
        row7_def row8_def row42_def)
  show ?thesis
    using h e list_expired_exact_and_sorted [OF h, of 738886] by simp
qed

section \<open>The expiry sweeper\<close>

lemma upto3: "[0..(2::int)] = [0, 1, 2]" by (simp add: upto_rec1)

lemma sweep_world0:
  "check_expired_subscriptions 738886 world0 =
     world0\<lparr>subscribers := [row7\<lparr>status := ''expired''\<rparr>, row8, row42],
            trace := [Call (SendMessage 7 SubscriptionExpired) Delivered]\<rparr>"
  by (simp add: check_expired_subscriptions_def list_expired_subscriptions_def world0_def
      is_expired_def row7_def row8_def row42_def notify_user_def upto3 bot_call_def
      update_subscriber_status_def ALLOWED_STATUSES_def)

lemma sweep_blocked:
  "check_expired_subscriptions 738886 world_blocked =
     world_blocked\<lparr>subscribers := [row7\<lparr>status := ''expired''\<rparr>, row8], transport := [],
            trace := [Call (SendMessage 7 SubscriptionExpired) (ApiError ''Forbidden: bot was blocked by the user'')]\<rparr>"
  by (simp add: check_expired_subscriptions_def list_expired_subscriptions_def world_blocked_def
      is_expired_def row7_def row8_def notify_user_def upto3 bot_call_def
      update_subscriber_status_def ALLOWED_STATUSES_def is_permanent_def lower_def lower_char_def)

text \<open>
  C8. When the store raises no \<^verbatim>\<open>sqlite3.Error\<close>, a second sweep on the same day right
  after a first one changes no status and sends no notification: the table and the trace
  after the second sweep are those after the first, whatever the table and the transport
  were.
\<close>

theorem sweep_twice_changes_nothing:
  assumes "db_faults w = []"
  shows "subscribers (check_expired_subscriptions today (check_expired_subscriptions today w)) =
           subscribers (check_expired_subscriptions today w) \<and>
         trace (check_expired_subscriptions today (check_expired_subscriptions today w)) =
           trace (check_expired_subscriptions today w)"
proof -
  let ?w1 = "check_expired_subscriptions today w"
  have h: "db_faults ?w1 = []" by (rule check_expired_healthy(2) [OF assms])
  have "filter (is_expired today) (subscribers ?w1) = []"
    by (simp add: check_expired_healthy(1) [OF assms] no_expired_after)
  then have "check_expired_subscriptions today ?w1 = ?w1"
    by (rule check_expired_nothing [OF h])
  then show ?thesis by simp
qed

theorem sweep_twice_changes_nothing_witness:
  "db_faults world0 = [] \<and>
   trace (check_expired_subscriptions 738886 world0) =
     [Call (SendMessage 7 SubscriptionExpired) Delivered] \<and>
   subscribers (check_expired_subscriptions 738886 (check_expired_subscriptions 738886 world0)) =
     subscribers (check_expired_subscriptions 738886 world0) \<and>
   trace (check_expired_subscriptions 738886 (check_expired_subscriptions 738886 world0)) =
     trace (check_expired_subscriptions 738886 world0)"
proof -
  have h: "db_faults world0 = []" by (simp add: world0_def)
  show ?thesis
    using h sweep_twice_changes_nothing [OF h, of 738886] by (simp add: sweep_world0)
qed

text \<open>
  C6. When the store raises no \<^verbatim>\<open>sqlite3.Error\<close>, every row matched by a sweep has its
  status set to expired, whatever the transport answers to the notification. In
  particular, when the transport answers the first attempt with a "blocked" error,
  \<^verbatim>\<open>notify_user\<close> returns False after that single call, with no sleep and no retry.
\<close>

theorem sweep_expires_whatever_the_notification:
  assumes "db_faults w = []" and "r \<in> set (subscribers w)" and "is_expired today r"
  shows "r\<lparr>status := ''expired''\<rparr> \<in> set (subscribers (check_expired_subscriptions today w)) \<and>
         (transport v = ApiError msg # rest \<and> is_permanent msg \<longrightarrow>
            notify_user uid 3 v =
              (False, v\<lparr>transport := rest,
                        trace := trace v @ [Call (SendMessage uid SubscriptionExpired) (ApiError msg)]\<rparr>))"
proof -
  have "expire_row (user_id ` {r \<in> set (subscribers w). is_expired today r}) r =
          r\<lparr>status := ''expired''\<rparr>"
    using assms(2,3) by (auto simp: expire_row_def)
  then have "r\<lparr>status := ''expired''\<rparr> \<in> set (subscribers (check_expired_subscriptions today w))"
    using assms(2) by (force simp add: check_expired_healthy(1) [OF assms(1)])
  then show ?thesis by (simp add: notify_blocked)
qed

theorem sweep_expires_whatever_the_notification_witness:
  "db_faults world_blocked = [] \<and> row7 \<in> set (subscribers world_blocked) \<and>
   is_expired 738886 row7 \<and>
   transport world_blocked = [ApiError ''Forbidden: bot was blocked by the user''] \<and>
   is_permanent ''Forbidden: bot was blocked by the user'' \<and>
   row7\<lparr>status := ''expired''\<rparr> \<in> set (subscribers (check_expired_subscriptions 738886 world_blocked)) \<and>
   notify_user 7 3 world_blocked =
     (False, world_blocked\<lparr>transport := [],
        trace := [Call (SendMessage 7 SubscriptionExpired)
                    (ApiError ''Forbidden: bot was blocked by the user'')]\<rparr>) \<and>
   trace (check_expired_subscriptions 738886 world_blocked) =
     [Call (SendMessage 7 SubscriptionExpired) (ApiError ''Forbidden: bot was blocked by the user'')]"
proof -
  have h1: "db_faults world_blocked = []" by (simp add: world_blocked_def)
  have h2: "row7 \<in> set (subscribers world_blocked)" by (simp add: world_blocked_def)
  have h3: "is_expired 738886 row7" by (simp add: is_expired_def row7_def)
  have h4: "transport world_blocked = [ApiError ''Forbidden: bot was blocked by the user'']"
    by (simp add: world_blocked_def)
  have h5: "is_permanent ''Forbidden: bot was blocked by the user''"
    by (simp add: is_permanent_def lower_def lower_char_def)
  have t: "trace world_blocked = []" by (simp add: world_blocked_def)
  show ?thesis
    using h1 h2 h3 h4 h5 t
      sweep_expires_whatever_the_notification [OF h1 h2 h3,
        of world_blocked "''Forbidden: bot was blocked by the user''" "[]" 7]
    by (simp add: sweep_blocked)
qed

section \<open>The approval handler\<close>

lemma messages_sent_append [simp]:
  "messages_sent (xs @ ys) = messages_sent xs @ messages_sent ys"
  by (induction xs rule: messages_sent.induct) simp_all

lemma get_connection_keeps:
  "get_connection w = (f, w') \<Longrightarrow>
   subscribers w' = subscribers w \<and> trace w' = trace w \<and> transport w' = transport w"
  by (auto simp: get_connection_def split: list.splits)

lemma get_subscriber_keeps:
  "get_subscriber uid w = (x, w') \<Longrightarrow>
   subscribers w' = subscribers w \<and> trace w' = trace w \<and> transport w' = transport w"
  by (auto simp: get_subscriber_def split: prod.splits if_splits dest: get_connection_keeps)

lemma update_status_keeps:
  "update_subscriber_status uid st w = (ok, w') \<Longrightarrow>
   trace w' = trace w \<and> transport w' = transport w"
  by (auto simp: update_subscriber_status_def split: prod.splits if_splits dest: get_connection_keeps)

lemma update_dates_keeps:
  "update_subscription_dates uid sd ed ty w = (ok, w') \<Longrightarrow>
   trace w' = trace w \<and> transport w' = transport w"
  by (auto simp: update_subscription_dates_def split: prod.splits if_splits option.splits
      dest: get_connection_keeps)

lemma map_unmatched:
  "filter (\<lambda>r. user_id r = uid) rows = [] \<Longrightarrow>
   map (\<lambda>r. if user_id r = uid then g r else r) rows = rows"
  by (induction rows) (auto split: if_splits)

lemma update_status_failed:
  "update_subscriber_status uid st w = (False, w') \<Longrightarrow> subscribers w' = subscribers w"
  by (auto simp: update_subscriber_status_def map_unmatched
      split: prod.splits if_splits dest: get_connection_keeps)

lemma bot_await_trace:
  "bot_await c w = (x, w') \<Longrightarrow>
   subscribers w' = subscribers w \<and> (\<exists>r. trace w' = trace w @ [Call c r])"
  by (auto simp: bot_await_def bot_call_def split: list.splits api_result.splits)

lemma alert_path:
  assumes "w' = snd (case bot_await (AnswerCallback FailedToUpdateStatus True) w of
             (Inl e, w3) \<Rightarrow> bot_await (AnswerCallback (ErrorProcessing act) True) w3
           | (Inr u, w3) \<Rightarrow> (Inr u, w3))"
  shows "subscribers w' = subscribers w \<and>
         messages_sent (trace w') = messages_sent (trace w) \<and>
         (\<exists>r more.
            trace w' = trace w @ Call (AnswerCallback FailedToUpdateStatus True) r # more \<and>
            (more = [] \<or> (\<exists>r2. more = [Call (AnswerCallback (ErrorProcessing act) True) r2])))"
proof -
  obtain x w3 where a: "bot_await (AnswerCallback FailedToUpdateStatus True) w = (x, w3)"
    by (cases "bot_await (AnswerCallback FailedToUpdateStatus True) w")
  from bot_await_trace [OF a] obtain r where
    t3: "subscribers w3 = subscribers w" "trace w3 = trace w @ [Call (AnswerCallback FailedToUpdateStatus True) r]"
    by auto
  show ?thesis
  proof (cases x)
    case (Inr u)
    then have "w' = w3" using assms a by simp
    then show ?thesis using t3 by simp
  next
    case (Inl e)
    obtain y w4 where b: "bot_await (AnswerCallback (ErrorProcessing act) True) w3 = (y, w4)"
      by (cases "bot_await (AnswerCallback (ErrorProcessing act) True) w3")
    from bot_await_trace [OF b] obtain r2 where
      t4: "subscribers w4 = subscribers w3" "trace w4 = trace w3 @ [Call (AnswerCallback (ErrorProcessing act) True) r2]"
      by auto
    have "w' = w4" using assms a b Inl by simp
    then show ?thesis using t3 t4 by simp
  qed
qed

text \<open>
  C5 (amended). For every approve or decline on an existing record, if the status write
  fails (\<^verbatim>\<open>update_subscriber_status\<close> returns False), the handler changes no row and sends
  no message to anyone; all it does is answer the admin's callback with the alert "Failed
  to update user status" and, when that answer itself fails, with the alert "Error
  processing". This is about the status write, the one write whose result the handler
  checks; the dates write of approve comes later and is not covered.
\<close>

theorem failed_status_write_aborts_before_notifying:
  assumes "get_subscriber target w = (Some u, w1)"
    and "\<not> fst (update_subscriber_status target
                  (case act of Approve \<Rightarrow> ''active'' | Decline \<Rightarrow> ''expired'') w1)"
    and "w' = snd (handle_admin_action cfg today caller act target w)"
  shows "subscribers w' = subscribers w \<and>
         messages_sent (trace w') = messages_sent (trace w) \<and>
         (\<exists>r more.
            trace w' = trace w @ Call (AnswerCallback FailedToUpdateStatus True) r # more \<and>
            (more = [] \<or> (\<exists>r2. more = [Call (AnswerCallback (ErrorProcessing act) True) r2])))"
proof -
  obtain w2 where u: "update_subscriber_status target
                  (case act of Approve \<Rightarrow> ''active'' | Decline \<Rightarrow> ''expired'') w1 = (False, w2)"
    using assms(2)
    by (cases "update_subscriber_status target
                  (case act of Approve \<Rightarrow> ''active'' | Decline \<Rightarrow> ''expired'') w1") auto
  have k1: "subscribers w1 = subscribers w" "trace w1 = trace w"
    using get_subscriber_keeps [OF assms(1)] by simp_all
  have k2: "subscribers w2 = subscribers w" "trace w2 = trace w"
    using update_status_failed [OF u] update_status_keeps [OF u] k1 by simp_all
  have "w' = snd (case bot_await (AnswerCallback FailedToUpdateStatus True) w2 of
             (Inl e, w3) \<Rightarrow> bot_await (AnswerCallback (ErrorProcessing act) True) w3
           | (Inr u, w3) \<Rightarrow> (Inr u, w3))"
    using assms(1,3) u
    by (cases act) (auto simp: handle_admin_action_def approve_branch_def decline_branch_def)
  from alert_path [OF this] k2 show ?thesis by simp
qed

lemma approve_status_fault:
  "handle_admin_action config0 738891 1 Approve 42 world_status_fault =
     (Inr (), world0\<lparr>trace := [Call (AnswerCallback FailedToUpdateStatus True) Delivered]\<rparr>)"
  by (simp add: handle_admin_action_def approve_branch_def get_subscriber_def get_connection_def
      update_subscriber_status_def ALLOWED_STATUSES_def world_status_fault_def world0_def
      row7_def row8_def row42_def bot_await_def bot_call_def)

lemma approve_dates_fault:
  "handle_admin_action config0 738891 1 Approve 42 world_dates_fault =
     (Inr (), world0\<lparr>subscribers := [row7, row8, row42\<lparr>status := ''active''\<rparr>],
        trace := [Call (SendMessage 42 SubscriptionConfirmation) Delivered,
                  Call (SendMessage 1 (AdminConfirmation Approve)) Delivered,
                  Call (EditText Approve) Delivered,
                  Call (AnswerCallback ApprovedAndNotified False) Delivered]\<rparr>)"
  by (simp add: handle_admin_action_def approve_branch_def get_subscriber_def get_connection_def
      update_subscriber_status_def update_subscription_dates_def ALLOWED_STATUSES_def
      ALLOWED_SUBSCRIPTION_TYPES_def world_dates_fault_def world0_def config0_def
      row7_def row8_def row42_def bot_await_def bot_call_def date_plus_def timedelta_def
      send_user_subscription_confirmation_def send_admin_confirmation_def)

theorem failed_status_write_aborts_before_notifying_witness:
  "get_subscriber 42 world_status_fault = (Some row42, world0\<lparr>db_faults := [True]\<rparr>) \<and>
   \<not> fst (update_subscriber_status 42 ''active'' (world0\<lparr>db_faults := [True]\<rparr>)) \<and>
   subscribers (snd (handle_admin_action config0 738891 1 Approve 42 world_status_fault)) =
     subscribers world_status_fault \<and>
   messages_sent (trace (snd (handle_admin_action config0 738891 1 Approve 42 world_status_fault))) =
     messages_sent (trace world_status_fault) \<and>
   trace (snd (handle_admin_action config0 738891 1 Approve 42 world_status_fault)) =
     [Call (AnswerCallback FailedToUpdateStatus True) Delivered]"
proof -
  have g: "get_subscriber 42 world_status_fault = (Some row42, world0\<lparr>db_faults := [True]\<rparr>)"
    by (simp add: get_subscriber_def get_connection_def world_status_fault_def world0_def
        row7_def row8_def row42_def)
  have u: "\<not> fst (update_subscriber_status 42
               (case Approve of Approve \<Rightarrow> ''active'' | Decline \<Rightarrow> ''expired'')
               (world0\<lparr>db_faults := [True]\<rparr>))"
    by (simp add: update_subscriber_status_def get_connection_def ALLOWED_STATUSES_def world0_def)
  show ?thesis
    using g u failed_status_write_aborts_before_notifying [OF g u refl, of config0 738891 1]
    by (simp add: approve_status_fault)
qed

text \<open>
  Against C5 as stated: the lookup and the status write go through, the dates write of
  approve raises \<^verbatim>\<open>sqlite3.Error\<close> and returns False, and the user is still told that the
  subscription is active; the row keeps the dates it had.
\<close>

theorem failed_dates_write_still_notifies_counterexample:
  "\<not> fst (update_subscription_dates 42 (Some 738891) (Some 738921) (Some ''monthly'')
           (snd (update_subscriber_status 42 ''active''
                  (snd (get_subscriber 42 world_dates_fault))))) \<and>
   messages_sent (trace (snd (handle_admin_action config0 738891 1 Approve 42 world_dates_fault))) =
     [(42, SubscriptionConfirmation), (1, AdminConfirmation Approve)] \<and>
   subscribers (snd (handle_admin_action config0 738891 1 Approve 42 world_dates_fault)) =
     [row7, row8, row42\<lparr>status := ''active''\<rparr>]"
  by (simp add: approve_dates_fault)
     (simp add: get_subscriber_def get_connection_def update_subscriber_status_def
        update_subscription_dates_def ALLOWED_STATUSES_def ALLOWED_SUBSCRIPTION_TYPES_def
        world_dates_fault_def world0_def)

text \<open>
  C1. The code at the failing input: caller 999 is not the administrator (1), the filter
  says so, and \<^verbatim>\<open>handle_admin_action\<close> still activates user 42, rewrites the dates and
  sends the approval to the user; no access-denied answer is given. The handler does for
  any caller what it does for the administrator.
\<close>

theorem approve_by_non_admin_goes_through:
  "AdminFilter config0 999 = (False, 999) \<and>
   handle_admin_action config0 738891 999 Approve 42 world0 =
     (Inr (), world0\<lparr>subscribers := [row7, row8,
          row42\<lparr>status := ''active'', start_date := Some 738891, end_date := Some 738921\<rparr>],
        trace := [Call (SendMessage 42 SubscriptionConfirmation) Delivered,
                  Call (SendMessage 1 (AdminConfirmation Approve)) Delivered,
                  Call (EditText Approve) Delivered,
                  Call (AnswerCallback ApprovedAndNotified False) Delivered]\<rparr>) \<and>
   handle_admin_action cfg today caller act target w =
     handle_admin_action cfg today (ADMIN_ID cfg) act target w"
proof -
  have "handle_admin_action config0 738891 999 Approve 42 world0 =
     (Inr (), world0\<lparr>subscribers := [row7, row8,
          row42\<lparr>status := ''active'', start_date := Some 738891, end_date := Some 738921\<rparr>],
        trace := [Call (SendMessage 42 SubscriptionConfirmation) Delivered,
                  Call (SendMessage 1 (AdminConfirmation Approve)) Delivered,
                  Call (EditText Approve) Delivered,
                  Call (AnswerCallback ApprovedAndNotified False) Delivered]\<rparr>)"
    by (simp add: handle_admin_action_def approve_branch_def get_subscriber_def
        get_connection_def update_subscriber_status_def update_subscription_dates_def
        ALLOWED_STATUSES_def ALLOWED_SUBSCRIPTION_TYPES_def world0_def config0_def
        row7_def row8_def row42_def bot_await_def bot_call_def date_plus_def timedelta_def
        send_user_subscription_confirmation_def send_admin_confirmation_def)
  moreover have "handle_admin_action cfg today caller act target w =
     handle_admin_action cfg today (ADMIN_ID cfg) act target w"
    by (simp add: handle_admin_action_def)
  ultimately show ?thesis by (simp add: AdminFilter_def config0_def)
qed

lemma find_user_filter:
  "find (\<lambda>r. user_id r = uid) rows = Some u \<Longrightarrow>
   0 < length (filter (\<lambda>r. user_id r = uid) rows)"
  by (induction rows) (auto split: if_splits)

lemma find_user_map:
  "(\<And>r. user_id (g r) = user_id r) \<Longrightarrow>
   find (\<lambda>r. user_id r = uid) (map g rows) = map_option g (find (\<lambda>r. user_id r = uid) rows)"
  by (induction rows) auto

lemma get_subscriber_healthy:
  "db_faults w = [] \<Longrightarrow>
   get_subscriber uid w = (find (\<lambda>r. user_id r = uid) (subscribers w), w)"
  by (simp add: get_subscriber_def)

lemma update_dates_healthy:
  "db_faults w = [] \<Longrightarrow> ty \<in> ALLOWED_SUBSCRIPTION_TYPES \<Longrightarrow>
   update_subscription_dates uid sd ed (Some ty) w =
     (0 < length (filter (\<lambda>r. user_id r = uid) (subscribers w)),
      w\<lparr>subscribers :=
          map (\<lambda>r. if user_id r = uid
                    then r\<lparr>start_date := sd, end_date := ed, subscription_type := Some ty\<rparr>
                    else r) (subscribers w)\<rparr>)"
  by (simp add: update_subscription_dates_def)

lemma await_then_frame:
  "subscribers (snd (case bot_await c w of
                       (Inl e, w5) \<Rightarrow> (Inl e, w5)
                     | (Inr x, w5) \<Rightarrow> bot_await c' w5)) = subscribers w"
proof (cases "bot_await c w")
  case (Pair x w5)
  then have "subscribers w5 = subscribers w" using bot_await_frame(1) [of c w] by simp
  then show ?thesis using Pair by (cases x) simp_all
qed

lemma catch_frame:
  "subscribers (snd (case X of
                       (Inl e, w2) \<Rightarrow> bot_await c w2
                     | (Inr u, w2) \<Rightarrow> (Inr u, w2))) = subscribers (snd X)"
  by (cases X) (auto split: sum.splits)

lemma approve_rows:
  assumes h: "db_faults w = []"
    and f: "find (\<lambda>r. user_id r = target) (subscribers w) = Some u"
    and ty: "subscription_type u = Some ty" "ty \<in> ALLOWED_SUBSCRIPTION_TYPES"
    and d: "date_plus today (if ty = ''lifetime'' then 365 * 10 else MONTHLY_DAYS cfg) = Inr fin"
  shows "subscribers (snd (handle_admin_action cfg today caller Approve target w)) =
           map (\<lambda>r. if user_id r = target
                     then r\<lparr>status := ''active'', start_date := Some today,
                            end_date := Some fin, subscription_type := Some ty\<rparr>
                     else r) (subscribers w)"
proof -
  let ?w1 = "w\<lparr>subscribers :=
                 map (\<lambda>r. if user_id r = target then r\<lparr>status := ''active''\<rparr> else r) (subscribers w)\<rparr>"
  have s: "update_subscriber_status target ''active'' w = (True, ?w1)"
    using update_status_healthy [OF h, of "''active''" target] find_user_filter [OF f]
    by (simp add: ALLOWED_STATUSES_def)
  have h1: "db_faults ?w1 = []" using h by simp
  have d': "(if Some ty = Some ''lifetime'' then date_plus today (365 * 10)
             else date_plus today (MONTHLY_DAYS cfg)) = Inr fin"
    using d by (simp split: if_splits)
  let ?w2 = "snd (update_subscription_dates target (Some today) (Some fin) (Some ty) ?w1)"
  have r2: "subscribers ?w2 =
           map (\<lambda>r. if user_id r = target
                     then r\<lparr>status := ''active'', start_date := Some today,
                            end_date := Some fin, subscription_type := Some ty\<rparr>
                     else r) (subscribers w)"
    by (simp add: update_dates_healthy [OF h1 ty(2)] comp_def if_distrib cong: if_cong)
  have "subscribers (snd (approve_branch cfg today target u w)) = subscribers ?w2"
    unfolding approve_branch_def s ty(1) Let_def
    by (simp only: d' prod.case if_False not_True_eq_False simp_thms sum.case option.case
          await_then_frame send_admin_confirmation_frame send_user_subscription_confirmation_frame)
  then show ?thesis
    by (simp add: handle_admin_action_def get_subscriber_healthy [OF h] f catch_frame r2)
qed

lemma date_plus_Inr: "date_plus d n = Inr f \<Longrightarrow> f = d + n"
  by (auto simp: date_plus_def timedelta_def split: if_splits)

lemma find_user_id: "find (\<lambda>r. user_id r = uid) rows = Some u \<Longrightarrow> user_id u = uid"
  by (induction rows) (auto split: if_splits)

lemma approve_row:
  assumes h: "db_faults w = []"
    and f: "find (\<lambda>r. user_id r = target) (subscribers w) = Some u"
    and ty: "subscription_type u = Some plan" "plan = ''monthly'' \<or> plan = ''lifetime''"
    and d: "date_plus today (if plan = ''lifetime'' then 365 * 10 else MONTHLY_DAYS cfg) = Inr fin"
  shows "find (\<lambda>r. user_id r = target)
           (subscribers (snd (handle_admin_action cfg today caller Approve target w))) =
         Some (u\<lparr>status := ''active'', start_date := Some today, end_date := Some fin\<rparr>)"
proof -
  have a: "plan \<in> ALLOWED_SUBSCRIPTION_TYPES" using ty(2) by (auto simp: ALLOWED_SUBSCRIPTION_TYPES_def)
  have u: "u\<lparr>subscription_type := Some plan\<rparr> = u" using ty(1) by simp
  have "find (\<lambda>r. user_id r = target)
           (subscribers (snd (handle_admin_action cfg today caller Approve target w))) =
        map_option (\<lambda>r. if user_id r = target
                     then r\<lparr>status := ''active'', start_date := Some today,
                            end_date := Some fin, subscription_type := Some plan\<rparr>
                     else r) (Some u)"
    unfolding approve_rows [OF h f ty(1) a d] f [symmetric]
    by (rule find_user_map) simp
  then show ?thesis using find_user_id [OF f] ty(1) by simp
qed

text \<open>
  C3 (amended). For every existing record whose stored plan is monthly or lifetime, when
  the store raises no \<^verbatim>\<open>sqlite3.Error\<close> and the date arithmetic does not overflow, approve
  sets status to active, sets the start date to the day of approval (not the stored start
  date) and sets the end date to that day plus 3650 days for lifetime, plus the configured
  monthly duration for monthly.
\<close>

theorem approve_recomputes_dates_from_today:
  assumes "db_faults w = []"
    and "find (\<lambda>r. user_id r = target) (subscribers w) = Some u"
    and "subscription_type u = Some plan" and "plan = ''monthly'' \<or> plan = ''lifetime''"
    and "date_plus today (if plan = ''lifetime'' then 365 * 10 else MONTHLY_DAYS cfg) = Inr fin"
  shows "find (\<lambda>r. user_id r = target)
           (subscribers (snd (handle_admin_action cfg today caller Approve target w))) =
         Some (u\<lparr>status := ''active'', start_date := Some today,
                 end_date := Some (today + (if plan = ''lifetime'' then 3650 else MONTHLY_DAYS cfg))\<rparr>)"
  using approve_row [OF assms] date_plus_Inr [OF assms(5)] by simp

lemma find42: "find (\<lambda>r. user_id r = 42) (subscribers world0) = Some row42"
  by (simp add: world0_def row7_def row8_def row42_def)

lemma date_plus_30: "date_plus 738891 30 = Inr 738921"
  by (simp add: date_plus_def timedelta_def)

theorem approve_recomputes_dates_from_today_witness:
  "db_faults world0 = [] \<and>
   find (\<lambda>r. user_id r = 42) (subscribers world0) = Some row42 \<and>
   subscription_type row42 = Some ''monthly'' \<and>
   date_plus 738891 (MONTHLY_DAYS config0) = Inr 738921 \<and>
   find (\<lambda>r. user_id r = 42)
     (subscribers (snd (handle_admin_action config0 738891 1 Approve 42 world0))) =
   Some (row42\<lparr>status := ''active'', start_date := Some 738891, end_date := Some 738921\<rparr>)"
proof -
  have h: "db_faults world0 = []" by (simp add: world0_def)
  have p: "subscription_type row42 = Some ''monthly''" by (simp add: row42_def)
  have q: "''monthly'' = ''monthly'' \<or> ''monthly'' = ''lifetime''" by simp
  have d: "date_plus 738891 (if ''monthly'' = ''lifetime'' then 365 * 10 else MONTHLY_DAYS config0)
             = Inr 738921"
    using date_plus_30 by (simp add: config0_def)
  show ?thesis
    using h p d approve_recomputes_dates_from_today [OF h find42 p q d, of 1]
    by (simp add: find42 config0_def)
qed

text \<open>
  Against C3 as stated: user 42 has the stored start date 738886 and the monthly plan of
  30 days; approved five days later the end date is 738921, not 738886 + 30.
\<close>

theorem approve_ignores_stored_start_date_counterexample:
  "start_date row42 = Some 738886 \<and> subscription_type row42 = Some ''monthly'' \<and>
   map end_date (filter (\<lambda>r. user_id r = 42)
     (subscribers (snd (handle_admin_action config0 738891 1 Approve 42 world0)))) =
     [Some 738921] \<and>
   (738921 :: int) \<noteq> 738886 + MONTHLY_DAYS config0"
  by (simp add: handle_admin_action_def approve_branch_def get_subscriber_def
      get_connection_def update_subscriber_status_def update_subscription_dates_def
      ALLOWED_STATUSES_def ALLOWED_SUBSCRIPTION_TYPES_def world0_def config0_def
      row7_def row8_def row42_def bot_await_def bot_call_def date_plus_def timedelta_def
      send_user_subscription_confirmation_def send_admin_confirmation_def)

text \<open>
  C2 (amended). For every record approved with a stored plan of monthly or lifetime, when
  the store raises no \<^verbatim>\<open>sqlite3.Error\<close> and the date arithmetic does not overflow, the
  approved record is active and its end date is set, never null: it equals the start date
  plus 3650 days for lifetime and the start date plus the configured monthly duration,
  exactly, for monthly.
\<close>

theorem approved_record_dates:
  assumes "db_faults w = []"
    and "find (\<lambda>r. user_id r = target) (subscribers w) = Some u"
    and "subscription_type u = Some plan" and "plan = ''monthly'' \<or> plan = ''lifetime''"
    and "date_plus today (if plan = ''lifetime'' then 365 * 10 else MONTHLY_DAYS cfg) = Inr fin"
  shows "\<exists>r s e.
           find (\<lambda>r. user_id r = target)
             (subscribers (snd (handle_admin_action cfg today caller Approve target w))) = Some r \<and>
           status r = ''active'' \<and> subscription_type r = Some plan \<and>
           start_date r = Some s \<and> end_date r = Some e \<and>
           e = s + (if plan = ''lifetime'' then 3650 else MONTHLY_DAYS cfg)"
  using approve_row [OF assms] date_plus_Inr [OF assms(5)] assms(3) by simp

lemma find9: "find (\<lambda>r. user_id r = 9) (subscribers world_lifetime) = Some row9"
  by (simp add: world_lifetime_def row9_def)

lemma approve_lifetime:
  "find (\<lambda>r. user_id r = 9)
     (subscribers (snd (handle_admin_action config0 738891 1 Approve 9 world_lifetime))) =
   Some (row9\<lparr>status := ''active'', start_date := Some 738891, end_date := Some 742541\<rparr>)"
  by (simp add: handle_admin_action_def approve_branch_def get_subscriber_def
      get_connection_def update_subscriber_status_def update_subscription_dates_def
      ALLOWED_STATUSES_def ALLOWED_SUBSCRIPTION_TYPES_def world_lifetime_def config0_def
      row9_def bot_await_def bot_call_def date_plus_def timedelta_def
      send_user_subscription_confirmation_def send_admin_confirmation_def)

theorem approved_record_dates_witness:
  "db_faults world_lifetime = [] \<and>
   find (\<lambda>r. user_id r = 9) (subscribers world_lifetime) = Some row9 \<and>
   subscription_type row9 = Some ''lifetime'' \<and>
   date_plus 738891 (365 * 10) = Inr 742541 \<and>
   (\<exists>r s e.
      find (\<lambda>r. user_id r = 9)
        (subscribers (snd (handle_admin_action config0 738891 1 Approve 9 world_lifetime))) = Some r \<and>
      status r = ''active'' \<and> subscription_type r = Some ''lifetime'' \<and>
      start_date r = Some s \<and> end_date r = Some e \<and> e = s + 3650)"
proof -
  have h: "db_faults world_lifetime = []" by (simp add: world_lifetime_def)
  have p: "subscription_type row9 = Some ''lifetime''" by (simp add: row9_def)
  have q: "''lifetime'' = ''monthly'' \<or> ''lifetime'' = ''lifetime''" by simp
  have d0: "date_plus 738891 (365 * 10) = Inr 742541" by (simp add: date_plus_def timedelta_def)
  have d: "date_plus 738891 (if ''lifetime'' = ''lifetime'' then 365 * 10 else MONTHLY_DAYS config0)
             = Inr 742541"
    using d0 by simp
  show ?thesis
    using h p d0 approved_record_dates [OF h find9 p q d, of 1]
    by (simp add: find9)
qed

text \<open>
  Against C2 as stated: the approved lifetime record of user 9 has the end date 742541,
  ten times 365 days after the approval, not null.
\<close>

theorem approved_lifetime_end_date_counterexample:
  "find (\<lambda>r. user_id r = 9)
     (subscribers (snd (handle_admin_action config0 738891 1 Approve 9 world_lifetime))) =
   Some (row9\<lparr>status := ''active'', start_date := Some 738891, end_date := Some 742541\<rparr>) \<and>
   subscription_type (row9\<lparr>status := ''active'', start_date := Some 738891,
                          end_date := Some 742541\<rparr>) = Some ''lifetime'' \<and>
   end_date (row9\<lparr>status := ''active'', start_date := Some 738891,
                 end_date := Some 742541\<rparr>) \<noteq> None"
  by (simp add: approve_lifetime) (simp add: row9_def)

section \<open>Receipt submission and approval\<close>

lemma receipt_rows:
  assumes h: "db_faults w = []"
    and a: "plan \<in> ALLOWED_SUBSCRIPTION_TYPES"
    and d: "(if plan = ''monthly''
             then (case date_plus today (MONTHLY_DAYS cfg) of
                     Inl e \<Rightarrow> Inl e
                   | Inr d \<Rightarrow> Inr (Some d))
             else Inr None) = Inr fin"
  shows "subscribers (snd (handle_receipt_photo cfg today uid (Some plan) w)) =
           map (\<lambda>r. if user_id r = uid
                     then r\<lparr>status := ''pending'', start_date := Some today,
                            end_date := fin, subscription_type := Some plan\<rparr>
                     else r) (subscribers w)"
    and "db_faults (snd (handle_receipt_photo cfg today uid (Some plan) w)) = []"
proof -
  let ?w1 = "w\<lparr>subscribers :=
                 map (\<lambda>r. if user_id r = uid then r\<lparr>status := ''pending''\<rparr> else r) (subscribers w)\<rparr>"
  have s: "update_subscriber_status uid ''pending'' w =
             (0 < length (filter (\<lambda>r. user_id r = uid) (subscribers w)), ?w1)"
    using update_status_healthy [OF h, of "''pending''" uid] by (simp add: ALLOWED_STATUSES_def)
  have h1: "db_faults ?w1 = []" using h by simp
  let ?w2 = "snd (update_subscription_dates uid (Some today) fin (Some plan) ?w1)"
  have r2: "subscribers ?w2 =
           map (\<lambda>r. if user_id r = uid
                     then r\<lparr>status := ''pending'', start_date := Some today,
                            end_date := fin, subscription_type := Some plan\<rparr>
                     else r) (subscribers w)"
    and h2: "db_faults ?w2 = []"
    using h by (simp_all add: update_dates_healthy [OF h1 a] comp_def if_distrib cong: if_cong)
  let ?w3 = "?w2\<lparr>trace := trace ?w2 @ [StateCleared uid]\<rparr>"
  obtain x w4 where b: "bot_await (SendMessage uid ReceiptReceived) ?w3 = (x, w4)"
    by (cases "bot_await (SendMessage uid ReceiptReceived) ?w3")
  have k4: "subscribers w4 = subscribers ?w2" "db_faults w4 = db_faults ?w2"
    using bot_await_frame [of "SendMessage uid ReceiptReceived" ?w3] by (simp_all add: b)
  have t: "receipt_try cfg today uid (Some plan) w =
             (case x of Inl e \<Rightarrow> (Inl e, w4)
              | Inr _ \<Rightarrow> (Inr (), snd (send_admin_payment_notification cfg uid w4)))"
    using d b by (simp add: receipt_try_def s Let_def split: sum.splits)
  have "subscribers (snd (handle_receipt_photo cfg today uid (Some plan) w)) = subscribers ?w2 \<and>
        db_faults (snd (handle_receipt_photo cfg today uid (Some plan) w)) = db_faults ?w2"
    by (cases x) (simp_all add: handle_receipt_photo_def t k4)
  then show "subscribers (snd (handle_receipt_photo cfg today uid (Some plan) w)) =
           map (\<lambda>r. if user_id r = uid
                     then r\<lparr>status := ''pending'', start_date := Some today,
                            end_date := fin, subscription_type := Some plan\<rparr>
                     else r) (subscribers w)"
    and "db_faults (snd (handle_receipt_photo cfg today uid (Some plan) w)) = []"
    using r2 h2 by simp_all
qed

text \<open>
  C4 (amended). Subscription dates are computed twice. At receipt submission the start
  date is the submission day and the end date is that day plus the configured monthly
  duration for monthly, null for lifetime. Admin approval then overwrites both: the start
  date becomes the approval day and the end date that day plus the monthly duration for
  monthly, plus 3650 days for lifetime. (For every table with a row for the user, when the
  store raises no \<^verbatim>\<open>sqlite3.Error\<close> and the date arithmetic does not overflow.)
\<close>

theorem dates_set_at_submission_and_again_at_approval:
  assumes "db_faults w = []"
    and "find (\<lambda>r. user_id r = uid) (subscribers w) = Some u"
    and "plan = ''monthly'' \<or> plan = ''lifetime''"
    and "date_plus submitted (if plan = ''monthly'' then MONTHLY_DAYS cfg else 0) = Inr f1"
    and "date_plus approved (if plan = ''lifetime'' then 365 * 10 else MONTHLY_DAYS cfg) = Inr f2"
    and "w1 = snd (handle_receipt_photo cfg submitted uid (Some plan) w)"
    and "w2 = snd (handle_admin_action cfg approved caller Approve uid w1)"
  shows "find (\<lambda>r. user_id r = uid) (subscribers w1) =
           Some (u\<lparr>status := ''pending'', start_date := Some submitted,
                   end_date := (if plan = ''monthly'' then Some (submitted + MONTHLY_DAYS cfg)
                                else None),
                   subscription_type := Some plan\<rparr>) \<and>
         find (\<lambda>r. user_id r = uid) (subscribers w2) =
           Some (u\<lparr>status := ''active'', start_date := Some approved,
                   end_date := Some (approved + (if plan = ''lifetime'' then 3650
                                                  else MONTHLY_DAYS cfg)),
                   subscription_type := Some plan\<rparr>)"
proof -
  let ?fin = "if plan = ''monthly'' then Some (submitted + MONTHLY_DAYS cfg) else None"
  let ?u1 = "u\<lparr>status := ''pending'', start_date := Some submitted, end_date := ?fin,
               subscription_type := Some plan\<rparr>"
  have a: "plan \<in> ALLOWED_SUBSCRIPTION_TYPES"
    using assms(3) by (auto simp: ALLOWED_SUBSCRIPTION_TYPES_def)
  have d: "(if plan = ''monthly''
            then (case date_plus submitted (MONTHLY_DAYS cfg) of
                    Inl e \<Rightarrow> Inl e
                  | Inr d \<Rightarrow> Inr (Some d))
            else Inr None) = Inr ?fin"
    using assms(4) date_plus_Inr [OF assms(4)] by (simp split: if_splits)
  have rows1: "subscribers w1 =
           map (\<lambda>r. if user_id r = uid
                     then r\<lparr>status := ''pending'', start_date := Some submitted,
                            end_date := ?fin, subscription_type := Some plan\<rparr>
                     else r) (subscribers w)"
    and h1: "db_faults w1 = []"
    unfolding assms(6) by (rule receipt_rows [OF assms(1) a d])+
  have "find (\<lambda>r. user_id r = uid) (subscribers w1) =
          map_option (\<lambda>r. if user_id r = uid
                     then r\<lparr>status := ''pending'', start_date := Some submitted,
                            end_date := ?fin, subscription_type := Some plan\<rparr>
                     else r) (find (\<lambda>r. user_id r = uid) (subscribers w))"
    unfolding rows1 by (rule find_user_map) simp
  then have f1: "find (\<lambda>r. user_id r = uid) (subscribers w1) = Some ?u1"
    using assms(2) find_user_id [OF assms(2)] by simp
  have p1: "subscription_type ?u1 = Some plan" by simp
  have "find (\<lambda>r. user_id r = uid) (subscribers w2) =
          Some (?u1\<lparr>status := ''active'', start_date := Some approved, end_date := Some f2\<rparr>)"
    unfolding assms(7) by (rule approve_row [OF h1 f1 p1 assms(3) assms(5)])
  then show ?thesis using f1 date_plus_Inr [OF assms(5)] by simp
qed

theorem dates_set_at_submission_and_again_at_approval_witness:
  "db_faults world0 = [] \<and>
   find (\<lambda>r. user_id r = 42) (subscribers world0) = Some row42 \<and>
   date_plus 738886 (MONTHLY_DAYS config0) = Inr 738916 \<and>
   date_plus 738891 (MONTHLY_DAYS config0) = Inr 738921 \<and>
   find (\<lambda>r. user_id r = 42)
     (subscribers (snd (handle_receipt_photo config0 738886 42 (Some ''monthly'') world0))) =
     Some row42 \<and>
   find (\<lambda>r. user_id r = 42)
     (subscribers (snd (handle_admin_action config0 738891 1 Approve 42
        (snd (handle_receipt_photo config0 738886 42 (Some ''monthly'') world0))))) =
     Some (row42\<lparr>status := ''active'', start_date := Some 738891, end_date := Some 738921,
                 subscription_type := Some ''monthly''\<rparr>)"
proof -
  have h: "db_faults world0 = []" by (simp add: world0_def)
  have q: "''monthly'' = ''monthly'' \<or> ''monthly'' = ''lifetime''" by simp
  have d1: "date_plus 738886 (if ''monthly'' = ''monthly'' then MONTHLY_DAYS config0 else 0)
              = Inr 738916"
    by (simp add: date_plus_def timedelta_def config0_def)
  have d2: "date_plus 738891 (if ''monthly'' = ''lifetime'' then 365 * 10 else MONTHLY_DAYS config0)
              = Inr 738921"
    by (simp add: date_plus_def timedelta_def config0_def)
  have r: "row42\<lparr>status := ''pending'', start_date := Some 738886, end_date := Some 738916,
                 subscription_type := Some ''monthly''\<rparr> = row42"
    by (simp add: row42_def)
  show ?thesis
    using h d1 d2
      dates_set_at_submission_and_again_at_approval [OF h find42 q d1 d2 refl refl, of 1]
    by (simp add: find42 config0_def r)
qed

text \<open>
  Against C4 as stated: user 42 submits a monthly receipt on day 738886, which fixes the
  dates 738886 and 738916; the approval five days later replaces them by 738891 and
  738921.
\<close>

theorem approval_changes_submission_dates_counterexample:
  "map (\<lambda>r. (start_date r, end_date r)) (filter (\<lambda>r. user_id r = 42)
     (subscribers (snd (handle_receipt_photo config0 738886 42 (Some ''monthly'') world0)))) =
     [(Some 738886, Some 738916)] \<and>
   map (\<lambda>r. (start_date r, end_date r)) (filter (\<lambda>r. user_id r = 42)
     (subscribers (snd (handle_admin_action config0 738891 1 Approve 42
        (snd (handle_receipt_photo config0 738886 42 (Some ''monthly'') world0)))))) =
     [(Some 738891, Some 738921)]"
  by (simp add: handle_receipt_photo_def receipt_try_def handle_admin_action_def
      approve_branch_def get_subscriber_def
      get_connection_def update_subscriber_status_def update_subscription_dates_def
      ALLOWED_STATUSES_def ALLOWED_SUBSCRIPTION_TYPES_def world0_def config0_def
      row7_def row8_def row42_def bot_await_def bot_call_def date_plus_def timedelta_def
      send_admin_payment_notification_def
      send_user_subscription_confirmation_def send_admin_confirmation_def)

section \<open>Retries of the expiry notification\<close>

lemma api_calls_append [simp]: "api_calls (xs @ ys) = api_calls xs + api_calls ys"
  by (induction xs rule: api_calls.induct) simp_all

lemma bot_call_trace:
  "bot_call c w = (r, w1) \<Longrightarrow> trace w1 = trace w @ [Call c r]"
  by (auto simp: bot_call_def split: list.splits)

lemma notify_loop_calls:
  "api_calls (trace (snd (notify_loop uid n as w))) \<le> api_calls (trace w) + length as"
proof (induction as arbitrary: w)
  case Nil
  then show ?case by simp
next
  case (Cons a as)
  obtain r w1 where b: "bot_call (SendMessage uid SubscriptionExpired) w = (r, w1)"
    by (cases "bot_call (SendMessage uid SubscriptionExpired) w")
  have t: "api_calls (trace w1) = Suc (api_calls (trace w))"
    using bot_call_trace [OF b] by simp
  show ?case
  proof (cases r)
    case Delivered
    then show ?thesis using b t by simp
  next
    case (RetryAfter wait_time)
    have "api_calls (trace (snd (notify_loop uid n as (asyncio_sleep wait_time w1))))
            \<le> api_calls (trace (asyncio_sleep wait_time w1)) + length as"
      by (rule Cons.IH)
    then show ?thesis using b t RetryAfter by (simp add: asyncio_sleep_def)
  next
    case (ApiError msg)
    let ?w2 = "if a < n - 1 then asyncio_sleep (2 * (a + 1)) w1 else w1"
    have "api_calls (trace (snd (notify_loop uid n as ?w2))) \<le> api_calls (trace ?w2) + length as"
      by (rule Cons.IH)
    moreover have "api_calls (trace ?w2) = api_calls (trace w1)"
      by (simp add: asyncio_sleep_def)
    ultimately show ?thesis using b t ApiError by simp
  next
    case OtherError
    then show ?thesis using b t by simp
  qed
qed

lemma notify_loop_flood:
  "length as = length waits \<Longrightarrow> transport w = map RetryAfter waits @ rest \<Longrightarrow>
   notify_loop uid n as w =
     (False, w\<lparr>transport := rest,
               trace := trace w @ concat (map (\<lambda>t. [Call (SendMessage uid SubscriptionExpired)
                                                        (RetryAfter t), Slept t]) waits)\<rparr>)"
proof (induction waits arbitrary: as w)
  case Nil
  then show ?case by simp
next
  case (Cons t waits)
  then obtain a as' where as: "as = a # as'" "length as' = length waits"
    by (cases as) auto
  let ?w1 = "asyncio_sleep t (w\<lparr>transport := map RetryAfter waits @ rest,
               trace := trace w @ [Call (SendMessage uid SubscriptionExpired) (RetryAfter t)]\<rparr>)"
  have b: "bot_call (SendMessage uid SubscriptionExpired) w =
            (RetryAfter t, w\<lparr>transport := map RetryAfter waits @ rest,
               trace := trace w @ [Call (SendMessage uid SubscriptionExpired) (RetryAfter t)]\<rparr>)"
    using Cons.prems(2) by (simp add: bot_call_def)
  have tr: "transport ?w1 = map RetryAfter waits @ rest" by (simp add: asyncio_sleep_def)
  show ?case
    unfolding as(1)
    by (simp add: b Cons.IH [OF as(2) tr]) (simp add: asyncio_sleep_def)
qed

lemma length_attempts: "length [0..retries - 1] = nat retries"
  by simp

text \<open>
  C7 (amended). In the sweeper's notification, a rate-limit answer to an attempt causes a
  wait equal to the delay the transport names, after which the loop goes on with the
  attempts that remain: the rate-limited attempt is used up. So \<^verbatim>\<open>notify_user\<close> never makes
  more than \<open>retries\<close> calls, and when all \<open>retries\<close> answers are rate limits it returns
  False without a further call.
\<close>

theorem rate_limit_uses_up_an_attempt:
  "api_calls (trace (snd (notify_user uid retries w))) \<le> api_calls (trace w) + nat retries \<and>
   (transport w = RetryAfter t # later \<longrightarrow>
      notify_loop uid retries (attempt # remaining) w =
        notify_loop uid retries remaining
          (w\<lparr>transport := later,
             trace := trace w @ [Call (SendMessage uid SubscriptionExpired) (RetryAfter t),
                                 Slept t]\<rparr>)) \<and>
   (transport w = map RetryAfter waits @ rest \<and> length waits = nat retries \<longrightarrow>
      notify_user uid retries w =
        (False, w\<lparr>transport := rest,
                  trace := trace w @ concat (map (\<lambda>t. [Call (SendMessage uid SubscriptionExpired)
                                                           (RetryAfter t), Slept t]) waits)\<rparr>))"
proof -
  have "api_calls (trace (snd (notify_user uid retries w))) \<le> api_calls (trace w) + nat retries"
    using notify_loop_calls [of uid retries "[0..retries - 1]" w]
    by (simp add: notify_user_def)
  moreover have "notify_loop uid retries (attempt # remaining) w =
        notify_loop uid retries remaining
          (w\<lparr>transport := later,
             trace := trace w @ [Call (SendMessage uid SubscriptionExpired) (RetryAfter t),
                                 Slept t]\<rparr>)"
    if "transport w = RetryAfter t # later"
    using that by (simp add: bot_call_def asyncio_sleep_def)
  moreover have "notify_user uid retries w =
        (False, w\<lparr>transport := rest,
                  trace := trace w @ concat (map (\<lambda>t. [Call (SendMessage uid SubscriptionExpired)
                                                           (RetryAfter t), Slept t]) waits)\<rparr>)"
    if "transport w = map RetryAfter waits @ rest" "length waits = nat retries"
    unfolding notify_user_def
    by (rule notify_loop_flood) (simp_all add: that)
  ultimately show ?thesis by blast
qed

theorem rate_limit_uses_up_an_attempt_witness:
  "transport world_flood = RetryAfter 5 # [RetryAfter 7, RetryAfter 9, Delivered] \<and>
   transport world_flood = map RetryAfter [5, 7, 9] @ [Delivered] \<and>
   length [5, 7, 9 :: int] = nat 3 \<and>
   api_calls (trace (snd (notify_user 7 3 world_flood))) \<le> api_calls (trace world_flood) + nat 3 \<and>
   notify_loop 7 3 [0, 1, 2] world_flood =
     notify_loop 7 3 [1, 2]
       (world_flood\<lparr>transport := [RetryAfter 7, RetryAfter 9, Delivered],
          trace := [Call (SendMessage 7 SubscriptionExpired) (RetryAfter 5), Slept 5]\<rparr>) \<and>
   notify_user 7 3 world_flood =
     (False, world_flood\<lparr>transport := [Delivered],
        trace := [Call (SendMessage 7 SubscriptionExpired) (RetryAfter 5), Slept 5,
                  Call (SendMessage 7 SubscriptionExpired) (RetryAfter 7), Slept 7,
                  Call (SendMessage 7 SubscriptionExpired) (RetryAfter 9), Slept 9]\<rparr>)"
proof -
  have t: "transport world_flood = map RetryAfter [5, 7, 9] @ [Delivered]"
    by (simp add: world_flood_def)
  have l: "length [5, 7, 9 :: int] = nat 3" by simp
  have e: "trace world_flood = []" by (simp add: world_flood_def)
  show ?thesis
    using t l
      rate_limit_uses_up_an_attempt [where uid = 7 and retries = 3 and w = world_flood
        and t = 5 and later = "[RetryAfter 7, RetryAfter 9, Delivered]" and attempt = 0
        and remaining = "[1, 2]" and waits = "[5, 7, 9]" and rest = "[Delivered]"]
    by (simp add: e)
qed

text \<open>
  Against C7 as stated: with three attempts and three rate-limit answers, the third wait
  is followed by no retry, though the next call would have been delivered; each rate
  limit has consumed one of the three attempts.
\<close>

theorem rate_limit_retry_counterexample:
  "notify_user 7 3 world_flood =
     (False, world_flood\<lparr>transport := [Delivered],
        trace := [Call (SendMessage 7 SubscriptionExpired) (RetryAfter 5), Slept 5,
                  Call (SendMessage 7 SubscriptionExpired) (RetryAfter 7), Slept 7,
                  Call (SendMessage 7 SubscriptionExpired) (RetryAfter 9), Slept 9]\<rparr>)"
  by (simp add: notify_user_def upto3 bot_call_def asyncio_sleep_def world_flood_def)

end
